theory Spec2Isabelle
  imports Complex_Main "HOL-Library.Char_ord" "HOL-Library.List_Lexorder"
    "HOL-Library.Product_Lexorder"
begin

section \<open>Data model\<close>

text \<open>
  The repository holds two scripts over one CSV table of retail transactions:
  \<^verbatim>\<open>update_products.py\<close> relabels the item descriptions, and
  \<^verbatim>\<open>retail_analysis.py\<close> loads the relabelled table and derives aggregates from it.

  A pandas missing value (NaN, NaT, None) is \<open>None\<close>. Numbers are exact rationals: the
  rounding of IEEE doubles, their infinities and the order in which a sum is accumulated are
  not modelled. Strings are ordered as Python orders them, character by character.
\<close>

text \<open>
  A row of the CSV file as \<^verbatim>\<open>read_csv\<close> returns it. The fields the loader coerces
  (\<^verbatim>\<open>Quantity\<close>, \<^verbatim>\<open>Price\<close>, \<^verbatim>\<open>InvoiceDate\<close>) are held as the text of the
  field; the customer identifier is the number read.
\<close>

record csv_row =
  Invoice :: "string option"
  StockCode :: "string option"
  Description :: "string option"
  Quantity :: "string option"
  InvoiceDate_csv :: "string option"
  Price :: "string option"
  Customer_ID :: "int option"
  Country :: "string option"

record timestamp =
  year :: nat
  month :: nat
  day :: nat
  hour :: nat
  minute :: nat

text \<open>A row of the dataframe after the loader's renaming and coercions.\<close>

record row =
  Packet_ID :: "string option"
  Sensor_ID :: "string option"
  Sensor_Type :: "string option"
  Signal_Strength :: "rat option"
  InvoiceDate :: "timestamp option"
  SNR :: "rat option"
  Receiver_ID :: "int option"
  Transmission_Zone :: "string option"
  Effective_Throughput :: "rat option"

section \<open>Dataframe operations\<close>

text \<open>
  The dataframe the analysis functions share: the loaded rows, and the columns the analysis
  functions assign to it (\<open>None\<close> while a column does not exist).
\<close>

record dataframe =
  rows :: "row list"
  InvoiceQuarter :: "string list option"
  InvoiceQuarterID :: "nat option list option"
  CohortQuarterID :: "nat option list option"
  CohortQuarter :: "string option list option"
  CohortIndex :: "int option list option"
  InvoiceMonth :: "(nat \<times> nat) option list option"

definition frame :: "row list \<Rightarrow> dataframe" where
  "frame rs = \<lparr>rows = rs, InvoiceQuarter = None, InvoiceQuarterID = None,
     CohortQuarterID = None, CohortQuarter = None, CohortIndex = None, InvoiceMonth = None\<rparr>"

text \<open>The column labels of a dataframe, as a set.\<close>

definition columns_of :: "dataframe \<Rightarrow> string set" where
  "columns_of df =
     set ([''Packet_ID'', ''Sensor_ID'', ''Sensor_Type'', ''Signal_Strength'', ''InvoiceDate'',
           ''SNR'', ''Receiver_ID'', ''Transmission_Zone'', ''Effective_Throughput'']
          @ (if InvoiceQuarter df = None then [] else [''InvoiceQuarter''])
          @ (if InvoiceQuarterID df = None then [] else [''InvoiceQuarterID''])
          @ (if CohortQuarterID df = None then [] else [''CohortQuarterID''])
          @ (if CohortQuarter df = None then [] else [''CohortQuarter''])
          @ (if CohortIndex df = None then [] else [''CohortIndex''])
          @ (if InvoiceMonth df = None then [] else [''InvoiceMonth'']))"

datatype error = IndexError

text \<open>The values of a column that are not missing.\<close>

fun dropna :: "'a option list \<Rightarrow> 'a list" where
  "dropna [] = []"
| "dropna (None # xs) = dropna xs"
| "dropna (Some x # xs) = x # dropna xs"

text \<open>\<^verbatim>\<open>Series.unique()\<close>: the distinct values in the order they first appear.\<close>

fun unique_from :: "'a list \<Rightarrow> 'a list \<Rightarrow> 'a list" where
  "unique_from seen [] = seen"
| "unique_from seen (x # xs) =
     (if x \<in> set seen then unique_from seen xs else unique_from (seen @ [x]) xs)"

definition unique :: "'a list \<Rightarrow> 'a list" where
  "unique xs = unique_from [] xs"

text \<open>
  A Python \<^verbatim>\<open>dict\<close>: the pairs in insertion order, each key once. Storing under a
  key the dictionary has already keeps the key's place and replaces its value.
\<close>

definition dict_set :: "'k \<Rightarrow> 'v \<Rightarrow> ('k \<times> 'v) list \<Rightarrow> ('k \<times> 'v) list" where
  "dict_set k v d =
     (if k \<in> fst ` set d then map (\<lambda>(k', v'). if k' = k then (k', v) else (k', v')) d
      else d @ [(k, v)])"

definition dict :: "('k \<times> 'v) list \<Rightarrow> ('k \<times> 'v) list" where
  "dict ps = fold (\<lambda>(k, v) d. dict_set k v d) ps []"

definition dict_keys :: "('k \<times> 'v) list \<Rightarrow> 'k list" where
  "dict_keys d = map fst d"

definition dict_values :: "('k \<times> 'v) list \<Rightarrow> 'v list" where
  "dict_values d = map snd d"

text \<open>\<^verbatim>\<open>Series.map(d)\<close> with a dictionary: a value that is no key of it becomes missing.\<close>

definition map_dict :: "('k \<times> 'v) list \<Rightarrow> 'k option list \<Rightarrow> 'v option list" where
  "map_dict d col = map (\<lambda>c. case c of None \<Rightarrow> None | Some k \<Rightarrow> map_of d k) col"

text \<open>
  \<^verbatim>\<open>groupby(key)[col].agg(f)\<close> with pandas' defaults: rows whose key is missing belong
  to no group, and the groups come sorted by key.
\<close>

definition group_keys :: "('k::linorder) option list \<Rightarrow> 'k list" where
  "group_keys ks = sort (remdups (dropna ks))"

definition group_vals :: "'k option list \<Rightarrow> 'v list \<Rightarrow> 'k \<Rightarrow> 'v list" where
  "group_vals ks vs k = map snd (filter (\<lambda>(k', v). k' = Some k) (zip ks vs))"

definition groupby_agg ::
  "('v list \<Rightarrow> 'r) \<Rightarrow> ('k::linorder) option list \<Rightarrow> 'v list \<Rightarrow> ('k \<times> 'r) list" where
  "groupby_agg f ks vs = map (\<lambda>k. (k, f (group_vals ks vs k))) (group_keys ks)"

text \<open>The reductions, each skipping missing values as pandas does.\<close>

definition nansum :: "rat option list \<Rightarrow> rat" where
  "nansum vs = sum_list (dropna vs)"

definition nunique :: "'a option list \<Rightarrow> int" where
  "nunique vs = int (length (remdups (dropna vs)))"

definition nanmin :: "nat option list \<Rightarrow> nat option" where
  "nanmin vs = (case dropna vs of [] \<Rightarrow> None | w # ws \<Rightarrow> Some (min_list (w # ws)))"

text \<open>
  \<^verbatim>\<open>groupby(key)[col].transform('min')\<close>: every row gets the minimum of its group; a row
  whose key is missing gets a missing value.
\<close>

definition transform_min :: "'k option list \<Rightarrow> nat option list \<Rightarrow> nat option list" where
  "transform_min ks vs =
     map (\<lambda>k. case k of None \<Rightarrow> None | Some c \<Rightarrow> nanmin (group_vals ks vs c)) ks"

text \<open>
  \<^verbatim>\<open>nlargest(n, col)\<close> and \<^verbatim>\<open>nsmallest(n, col)\<close> with \<^verbatim>\<open>keep='first'\<close>:
  pandas sorts the values stably (the negated values for \<^verbatim>\<open>nlargest\<close>) and takes the
  first \<open>n\<close> rows, so rows with equal values stay in their order in the frame.
\<close>

definition nlargest :: "nat \<Rightarrow> ('a \<times> ('b::{linorder,uminus})) list \<Rightarrow> ('a \<times> 'b) list" where
  "nlargest n xs = take n (sort_key (\<lambda>(k, v). - v) xs)"

definition nsmallest :: "nat \<Rightarrow> ('a \<times> ('b::linorder)) list \<Rightarrow> ('a \<times> 'b) list" where
  "nsmallest n xs = take n (sort_key (\<lambda>(k, v). v) xs)"

section \<open>The loader\<close>

text \<open>
  \<^verbatim>\<open>pd.to_numeric(col, errors='coerce')\<close> and
  \<^verbatim>\<open>pd.to_datetime(col, format=..., errors='coerce')\<close>: a missing cell stays
  missing, a cell whose text does not parse becomes missing. The parsers of single fields are
  pandas', taken as parameters.
\<close>

definition to_numeric :: "(string \<Rightarrow> rat option) \<Rightarrow> string option list \<Rightarrow> rat option list" where
  "to_numeric parse col = map (\<lambda>c. case c of None \<Rightarrow> None | Some s \<Rightarrow> parse s) col"

definition to_datetime ::
  "(string \<Rightarrow> timestamp option) \<Rightarrow> string option list \<Rightarrow> timestamp option list" where
  "to_datetime parse col = map (\<lambda>c. case c of None \<Rightarrow> None | Some s \<Rightarrow> parse s) col"

text \<open>The product of two columns: missing where either operand is missing.\<close>

fun mul_na :: "rat option \<Rightarrow> rat option \<Rightarrow> rat option" where
  "mul_na (Some a) (Some b) = Some (a * b)"
| "mul_na _ _ = None"

text \<open>
  \<^verbatim>\<open>load_and_preprocess_data\<close>: rename the columns, coerce price and quantity, derive
  \<^verbatim>\<open>Effective_Throughput\<close>, coerce the date, and drop the rows whose date is missing.
  A \<^verbatim>\<open>Total\<close> column of the file, renamed to \<^verbatim>\<open>Effective_Throughput\<close>, would be
  overwritten by the derived column, so the CSV row has no field for it.
\<close>

definition coerce_rows ::
  "(string \<Rightarrow> rat option) \<Rightarrow> (string \<Rightarrow> timestamp option) \<Rightarrow> csv_row list \<Rightarrow> row list" where
  "coerce_rows parse_num parse_date csv =
     (let snr = to_numeric parse_num (map Price csv);
          strength = to_numeric parse_num (map Quantity csv);
          throughput = map2 mul_na strength snr;
          dates = to_datetime parse_date (map InvoiceDate_csv csv)
      in map (\<lambda>(r, q, p, t, d).
            \<lparr>Packet_ID = Invoice r, Sensor_ID = StockCode r, Sensor_Type = Description r,
             Signal_Strength = q, InvoiceDate = d, SNR = p, Receiver_ID = Customer_ID r,
             Transmission_Zone = Country r, Effective_Throughput = t\<rparr>)
           (zip csv (zip strength (zip snr (zip throughput dates)))))"

definition dropna_InvoiceDate :: "row list \<Rightarrow> row list" where
  "dropna_InvoiceDate rs = filter (\<lambda>r. InvoiceDate r \<noteq> None) rs"

definition load_and_preprocess_data ::
  "(string \<Rightarrow> rat option) \<Rightarrow> (string \<Rightarrow> timestamp option) \<Rightarrow> csv_row list \<Rightarrow> dataframe" where
  "load_and_preprocess_data parse_num parse_date csv =
     frame (dropna_InvoiceDate (coerce_rows parse_num parse_date csv))"

section \<open>The aggregators\<close>

text \<open>
  Each analysis function is modelled by the tables it computes before it draws them; the
  dataframe is passed in and returned, since the functions receive the caller's frame and
  two of them assign columns to it.
\<close>

definition date_of :: "timestamp \<Rightarrow> nat \<times> nat \<times> nat" where
  "date_of t = (year t, month t, day t)"

text \<open>
  \<^verbatim>\<open>analyze_sales_trends\<close>: the daily totals, and the ten labels with the largest
  totals (\<^verbatim>\<open>sort_values(ascending=False).head(10)\<close>; labels with equal totals are kept in
  the order of the grouped table).
\<close>

definition analyze_sales_trends ::
  "dataframe \<Rightarrow> dataframe \<times> ((nat \<times> nat \<times> nat) \<times> rat) list \<times> (string \<times> rat) list" where
  "analyze_sales_trends df =
     (let daily_sales = groupby_agg nansum (map (\<lambda>r. map_option date_of (InvoiceDate r)) (rows df))
                          (map Effective_Throughput (rows df));
          top_products = take 10 (sort_key (\<lambda>(k, v). - v)
                          (groupby_agg nansum (map Sensor_Type (rows df))
                             (map Effective_Throughput (rows df))))
      in (df, daily_sales, top_products))"

text \<open>
  \<^verbatim>\<open>analyze_customer_behavior\<close>: the number of rows of each customer
  (\<^verbatim>\<open>groupby('Receiver_ID').size()\<close>) and the total amount of each region.
\<close>

definition analyze_customer_behavior ::
  "dataframe \<Rightarrow> dataframe \<times> (int \<times> nat) list \<times> (string \<times> rat) list" where
  "analyze_customer_behavior df =
     (let customer_freq = groupby_agg length (map Receiver_ID (rows df)) (rows df);
          country_sales = groupby_agg nansum (map Transmission_Zone (rows df))
                            (map Effective_Throughput (rows df))
      in (df, customer_freq, country_sales))"

text \<open>
  \<^verbatim>\<open>analyze_country_performance\<close>: the total amount and the number of distinct
  customers of each region, each with its ten largest and ten smallest entries.
\<close>

record country_performance =
  country_purchases :: "(string \<times> rat) list"
  top_countries :: "(string \<times> rat) list"
  bottom_countries :: "(string \<times> rat) list"
  country_customers :: "(string \<times> int) list"
  top_customers :: "(string \<times> int) list"
  bottom_customers :: "(string \<times> int) list"

definition analyze_country_performance :: "dataframe \<Rightarrow> dataframe \<times> country_performance" where
  "analyze_country_performance df =
     (let purchases = groupby_agg nansum (map Transmission_Zone (rows df))
                        (map Effective_Throughput (rows df));
          customers = groupby_agg nunique (map Transmission_Zone (rows df))
                        (map Receiver_ID (rows df))
      in (df, \<lparr>country_purchases = purchases,
                top_countries = nlargest 10 purchases,
                bottom_countries = nsmallest 10 purchases,
                country_customers = customers,
                top_customers = nlargest 10 customers,
                bottom_customers = nsmallest 10 customers\<rparr>))"

text \<open>
  \<^verbatim>\<open>analyze_product_performance\<close>: the total quantity of each product label, with the
  ten largest and ten smallest entries.
\<close>

record product_performance =
  product_quantities :: "(string \<times> rat) list"
  top_products :: "(string \<times> rat) list"
  bottom_products :: "(string \<times> rat) list"

definition analyze_product_performance :: "dataframe \<Rightarrow> dataframe \<times> product_performance" where
  "analyze_product_performance df =
     (let quantities = groupby_agg nansum (map Sensor_Type (rows df))
                         (map Signal_Strength (rows df))
      in (df, \<lparr>product_quantities = quantities,
                top_products = nlargest 10 quantities,
                bottom_products = nsmallest 10 quantities\<rparr>))"

section \<open>The cohort engine\<close>

text \<open>Decimal digits of a natural number, as \<^verbatim>\<open>str\<close> prints an integer.\<close>

definition digit :: "nat \<Rightarrow> char" where
  "digit d = ''0123456789'' ! d"

fun str_nat :: "nat \<Rightarrow> string" where
  "str_nat n = (if n < 10 then [digit n] else str_nat (n div 10) @ [digit (n mod 10)])"

declare str_nat.simps [simp del]

text \<open>
  \<^verbatim>\<open>dt.quarter\<close> and \<^verbatim>\<open>dt.year\<close> are integer columns, and
  \<^verbatim>\<open>astype(str)\<close> prints them as integers, as long as no date is missing. With a
  missing date pandas makes them float columns: \<^verbatim>\<open>4.0\<close>, and \<^verbatim>\<open>nan\<close> for the
  missing one.
\<close>

definition quarter :: "timestamp \<Rightarrow> nat" where
  "quarter t = nat ((int (month t) - 1) div 3 + 1)"

definition astype_str :: "bool \<Rightarrow> nat option \<Rightarrow> string" where
  "astype_str has_na v =
     (case v of None \<Rightarrow> ''nan''
      | Some n \<Rightarrow> if has_na then str_nat n @ ''.0'' else str_nat n)"

definition InvoiceQuarter_col :: "row list \<Rightarrow> string list" where
  "InvoiceQuarter_col rs =
     (let dates = map InvoiceDate rs; has_na = (None \<in> set dates)
      in map (\<lambda>d. ''Q'' @ astype_str has_na (map_option quarter d) @ ''/''
                     @ astype_str has_na (map_option year d)) dates)"

text \<open>The bucket index of each quarter key, in the order the keys first appear.\<close>

definition quarters_map :: "row list \<Rightarrow> (string \<times> nat) list" where
  "quarters_map rs =
     dict (zip (unique (InvoiceQuarter_col rs)) [0..<length (unique (InvoiceQuarter_col rs))])"

definition InvoiceQuarterID_col :: "row list \<Rightarrow> nat option list" where
  "InvoiceQuarterID_col rs = map_dict (quarters_map rs) (map Some (InvoiceQuarter_col rs))"

definition CohortQuarterID_col :: "row list \<Rightarrow> nat option list" where
  "CohortQuarterID_col rs = transform_min (map Receiver_ID rs) (InvoiceQuarterID_col rs)"

definition quarter_names :: "row list \<Rightarrow> (nat \<times> string) list" where
  "quarter_names rs = dict (zip (dict_values (quarters_map rs)) (dict_keys (quarters_map rs)))"

definition CohortQuarter_col :: "row list \<Rightarrow> string option list" where
  "CohortQuarter_col rs = map_dict (quarter_names rs) (CohortQuarterID_col rs)"

fun sub_na :: "nat option \<Rightarrow> nat option \<Rightarrow> int option" where
  "sub_na (Some a) (Some b) = Some (int a - int b)"
| "sub_na _ _ = None"

definition CohortIndex_col :: "row list \<Rightarrow> int option list" where
  "CohortIndex_col rs = map2 sub_na (InvoiceQuarterID_col rs) (CohortQuarterID_col rs)"

text \<open>
  Grouping by two columns: a row belongs to a group only when both of its keys are present.
\<close>

fun key2 :: "'a option \<Rightarrow> 'b option \<Rightarrow> ('a \<times> 'b) option" where
  "key2 (Some a) (Some b) = Some (a, b)"
| "key2 _ _ = None"

text \<open>
  The number of distinct customers of each (cohort, offset) pair:
  \<^verbatim>\<open>groupby(['CohortQuarterID', 'CohortIndex'])['Receiver_ID'].apply(pd.Series.nunique)\<close>.
\<close>

definition cohort_retention :: "row list \<Rightarrow> ((nat \<times> int) \<times> int) list" where
  "cohort_retention rs =
     groupby_agg nunique (map2 key2 (CohortQuarterID_col rs) (CohortIndex_col rs))
       (map Receiver_ID rs)"

text \<open>
  A table with labelled rows and columns. \<^verbatim>\<open>pivot_table\<close> with its default
  aggregation takes the mean of the values that share a row label and a column label; a cell
  no value falls into is missing.
\<close>

record 'i pivot =
  index :: "'i list"
  columns :: "int list"
  cells :: "rat option list list"

definition mean :: "int list \<Rightarrow> rat option" where
  "mean vs = (if vs = [] then None else Some (of_int (sum_list vs) / of_nat (length vs)))"

definition pivot_table :: "(('i::linorder \<times> int) \<times> int) list \<Rightarrow> 'i pivot" where
  "pivot_table tab =
     (let idx = sort (remdups (map (\<lambda>((i, c), v). i) tab));
          cols = sort (remdups (map (\<lambda>((i, c), v). c) tab))
      in \<lparr>index = idx, columns = cols,
          cells = map (\<lambda>i. map (\<lambda>c. mean (map snd (filter (\<lambda>(k, v). k = (i, c)) tab))) cols) idx\<rparr>)"

definition cohort_retention_count :: "row list \<Rightarrow> string option pivot" where
  "cohort_retention_count rs =
     (let p = pivot_table (cohort_retention rs)
      in \<lparr>index = map (map_of (quarter_names rs)) (index p), columns = columns p,
          cells = cells p\<rparr>)"

text \<open>
  \<^verbatim>\<open>iloc[:, 0]\<close> raises IndexError on a table without columns. The quotient of two
  cells is missing when either is; a zero divisor, for which IEEE division gives an
  infinity or NaN, is given a missing value here.
\<close>

definition iloc_col0 :: "'i pivot \<Rightarrow> error + rat option list" where
  "iloc_col0 p =
     (if columns p = [] then Inl IndexError
      else Inr (map (\<lambda>r. case r of [] \<Rightarrow> None | v # _ \<Rightarrow> v) (cells p)))"

fun div_na :: "rat option \<Rightarrow> rat option \<Rightarrow> rat option" where
  "div_na (Some a) (Some b) = (if b = 0 then None else Some (a / b))"
| "div_na _ _ = None"

text \<open>
  \<^verbatim>\<open>divide(cohort_size, axis=0)\<close> divides each row by the entry of the given column with
  the same row label; the labels are those of the table itself, in the same order.
\<close>

definition divide_rows :: "'i pivot \<Rightarrow> rat option list \<Rightarrow> 'i pivot" where
  "divide_rows p cohort_size =
     p\<lparr>cells := map2 (\<lambda>r s. map (\<lambda>v. div_na v s) r) (cells p) cohort_size\<rparr>"

text \<open>\<^verbatim>\<open>round(2)\<close>: to the nearest multiple of 1/100, a tie to the even one.\<close>

definition round_half_even :: "rat \<Rightarrow> int" where
  "round_half_even x =
     (let f = \<lfloor>x\<rfloor>; d = x - of_int f
      in if d < 1 / 2 then f else if 1 / 2 < d then f + 1 else if even f then f else f + 1)"

definition round_na :: "nat \<Rightarrow> rat option \<Rightarrow> rat option" where
  "round_na n v = map_option (\<lambda>x. of_int (round_half_even (x * 10 ^ n)) / 10 ^ n) v"

definition retention :: "row list \<Rightarrow> error + string option pivot" where
  "retention rs =
     (let count = cohort_retention_count rs
      in case iloc_col0 count of
           Inl e \<Rightarrow> Inl e
         | Inr cohort_size \<Rightarrow>
             (let r1 = divide_rows count cohort_size;
                  r2 = r1\<lparr>cells := map (map (\<lambda>v. round_na 2 (map_option (\<lambda>x. x * 100) v))) (cells r1)\<rparr>
              in Inr (r2\<lparr>index := rev (index r2), cells := rev (cells r2)\<rparr>)))"

text \<open>
  \<^verbatim>\<open>analyze_cohort_retention\<close> assigns five columns to the frame it is given and
  computes the retention table from them.
\<close>

definition analyze_cohort_retention ::
  "dataframe \<Rightarrow> dataframe \<times> (error + string option pivot)" where
  "analyze_cohort_retention df =
     (df\<lparr>InvoiceQuarter := Some (InvoiceQuarter_col (rows df)),
         InvoiceQuarterID := Some (InvoiceQuarterID_col (rows df)),
         CohortQuarterID := Some (CohortQuarterID_col (rows df)),
         CohortQuarter := Some (CohortQuarter_col (rows df)),
         CohortIndex := Some (CohortIndex_col (rows df))\<rparr>,
      retention (rows df))"

section \<open>Timeline sales\<close>

text \<open>
  \<^verbatim>\<open>analyze_timeline_sales\<close> assigns the quarter key and the month period to the frame
  it is given, and totals the amounts by each.
\<close>

definition to_period_M :: "timestamp \<Rightarrow> nat \<times> nat" where
  "to_period_M t = (year t, month t)"

definition analyze_timeline_sales ::
  "dataframe \<Rightarrow> dataframe \<times> (string \<times> rat) list \<times> ((nat \<times> nat) \<times> rat) list" where
  "analyze_timeline_sales df =
     (let quarter_col = InvoiceQuarter_col (rows df);
          df1 = df\<lparr>InvoiceQuarter := Some quarter_col\<rparr>;
          quarterly_sales = groupby_agg nansum (map Some quarter_col)
                              (map Effective_Throughput (rows df1));
          month_col = map (\<lambda>r. map_option to_period_M (InvoiceDate r)) (rows df1);
          df2 = df1\<lparr>InvoiceMonth := Some month_col\<rparr>;
          monthly_sales = groupby_agg nansum month_col (map Effective_Throughput (rows df2))
      in (df2, quarterly_sales, monthly_sales))"

section \<open>The relabelling script\<close>

definition ece_products :: "string list" where
  "ece_products =
     [''Arduino Uno R3 Development Board'',
      ''Raspberry Pi 4 Model B'',
      ''ESP32 WiFi Development Board'',
      ''Digital Multimeter'',
      ''Logic Analyzer'',
      ''Function Generator'',
      ''Oscilloscope Probe Set'',
      ''Power Supply Unit'',
      ''PCB Etching Kit'',
      ''Soldering Station'',
      ''Component Starter Kit'',
      ''FPGA Development Board'',
      ''Signal Generator'',
      ''RF Spectrum Analyzer'',
      ''Network Analyzer'',
      ''Logic Gate Trainer Kit'',
      ''Microcontroller Starter Kit'',
      ''Digital Storage Oscilloscope'',
      ''Signal Conditioning Module'',
      ''RF Power Meter'',
      ''Breadboard Kit'',
      ''Resistor Assortment Kit'',
      ''Capacitor Kit'',
      ''Inductor Set'',
      ''Transistor Pack'',
      ''IC Chip Collection'',
      ''LED Assortment'',
      ''Sensor Kit'',
      ''Motor Driver Module'',
      ''Relay Module'',
      ''WiFi Module'',
      ''Bluetooth Module'',
      ''GPS Module'',
      ''RF Transceiver'',
      ''Antenna Kit'',
      ''PCB Prototype Board'',
      ''Wire Kit'',
      ''Connector Set'',
      ''Heat Sink Kit'',
      ''Test Lead Set'']"

text \<open>
  \<^verbatim>\<open>update_products.py\<close>: every distinct description (a missing one included, as
  \<^verbatim>\<open>unique()\<close> returns it) is given a label of \<open>ece_products\<close>, and the description
  column is replaced by the labels. \<^verbatim>\<open>random.shuffle\<close> and \<^verbatim>\<open>random.sample\<close>
  are parameters: any function may stand for the random choice.
\<close>

definition update_products ::
  "(string list \<Rightarrow> string list) \<Rightarrow> (string list \<Rightarrow> nat \<Rightarrow> string list) \<Rightarrow> csv_row list
     \<Rightarrow> csv_row list" where
  "update_products shuffle sample df =
     (let unique_products = unique (map Description df);
          num_unique = length unique_products;
          product_mapping =
            (if num_unique > length ece_products then
               (let repeat_times = (num_unique + length ece_products - 1) div length ece_products;
                    repeated_products =
                      take num_unique (concat (replicate repeat_times ece_products))
                in dict (zip unique_products (shuffle repeated_products)))
             else dict (zip unique_products (sample ece_products num_unique)))
      in map (\<lambda>r. r\<lparr>Description := map_of product_mapping (Description r)\<rparr>) df)"

section \<open>Specification-side definitions and example tables\<close>

text \<open>What the loader's coercions do to a single CSV row.\<close>

definition coerce_row ::
  "(string \<Rightarrow> rat option) \<Rightarrow> (string \<Rightarrow> timestamp option) \<Rightarrow> csv_row \<Rightarrow> row" where
  "coerce_row parse_num parse_date r =
     \<lparr>Packet_ID = Invoice r, Sensor_ID = StockCode r, Sensor_Type = Description r,
      Signal_Strength = Option.bind (Quantity r) parse_num,
      InvoiceDate = Option.bind (InvoiceDate_csv r) parse_date,
      SNR = Option.bind (Price r) parse_num, Receiver_ID = Customer_ID r,
      Transmission_Zone = Country r,
      Effective_Throughput =
        mul_na (Option.bind (Quantity r) parse_num) (Option.bind (Price r) parse_num)\<rparr>"

text \<open>
  A small CSV table and field parsers for it: the second row has a quantity that is no
  number and no customer, the third a date that does not parse.
\<close>

definition pn0 :: "string \<Rightarrow> rat option" where
  "pn0 s = (if s = ''6'' then Some 6 else if s = ''2.5'' then Some (5 / 2) else None)"

definition pd0 :: "string \<Rightarrow> timestamp option" where
  "pd0 s =
     (if s = ''12/1/09 7:45''
      then Some \<lparr>year = 2009, month = 12, day = 1, hour = 7, minute = 45\<rparr> else None)"

definition csv0 :: "csv_row list" where
  "csv0 = [
    \<lparr>Invoice = Some ''489434'', StockCode = Some ''85048'', Description = Some ''Relay Module'',
     Quantity = Some ''6'', InvoiceDate_csv = Some ''12/1/09 7:45'', Price = Some ''2.5'',
     Customer_ID = Some 13085, Country = Some ''France''\<rparr>,
    \<lparr>Invoice = Some ''489435'', StockCode = Some ''22350'', Description = Some ''WiFi Module'',
     Quantity = Some ''six'', InvoiceDate_csv = Some ''12/1/09 7:45'', Price = Some ''2.5'',
     Customer_ID = None, Country = Some ''France''\<rparr>,
    \<lparr>Invoice = Some ''489436'', StockCode = Some ''22349'', Description = Some ''GPS Module'',
     Quantity = Some ''6'', InvoiceDate_csv = Some ''yesterday'', Price = Some ''2.5'',
     Customer_ID = Some 13078, Country = Some ''Spain''\<rparr>]"

text \<open>Stand-ins for the random choices of the relabelling script.\<close>

definition shuffle0 :: "string list \<Rightarrow> string list" where
  "shuffle0 xs = rev xs"

definition sample0 :: "string list \<Rightarrow> nat \<Rightarrow> string list" where
  "sample0 xs n = rev (take n xs)"

text \<open>
  Example frames for the cohort engine. \<open>tx\<close> is a loaded row of one unit sold to a
  customer in a month; in \<open>cohort_rows\<close> customers 1 and 2 first buy in the fourth quarter
  of 2009, customer 3 first buys in the first quarter of 2010, and customer 1 buys again
  then; \<open>cohort_rows_twice\<close> repeats that second purchase of customer 1.
\<close>

definition tx :: "int option \<Rightarrow> nat \<Rightarrow> nat \<Rightarrow> string option \<Rightarrow> rat \<Rightarrow> row" where
  "tx c y m z a =
     \<lparr>Packet_ID = Some ''489434'', Sensor_ID = Some ''85048'', Sensor_Type = Some ''Relay Module'',
      Signal_Strength = Some 1,
      InvoiceDate = Some \<lparr>year = y, month = m, day = 1, hour = 7, minute = 45\<rparr>,
      SNR = Some a, Receiver_ID = c, Transmission_Zone = z, Effective_Throughput = Some a\<rparr>"

definition cohort_rows :: "row list" where
  "cohort_rows =
     [tx (Some 1) 2009 12 (Some ''France'') 10, tx (Some 2) 2009 12 (Some ''Spain'') 20,
      tx (Some 1) 2010 1 (Some ''France'') 30, tx (Some 3) 2010 2 (Some ''Spain'') 40]"

definition cohort_rows_twice :: "row list" where
  "cohort_rows_twice =
     [tx (Some 1) 2009 12 (Some ''France'') 10, tx (Some 2) 2009 12 (Some ''Spain'') 20,
      tx (Some 1) 2010 1 (Some ''France'') 30, tx (Some 1) 2010 3 (Some ''France'') 5,
      tx (Some 3) 2010 2 (Some ''Spain'') 40]"









text \<open>
  The group key of each row in the retention count, and the bucket indices of the rows of
  a customer.
\<close>

definition cohort_keys :: "row list \<Rightarrow> (nat \<times> int) option list" where
  "cohort_keys rs = map2 key2 (CohortQuarterID_col rs) (CohortIndex_col rs)"

definition customer_buckets :: "row list \<Rightarrow> int \<Rightarrow> nat set" where
  "customer_buckets rs c =
     {b. \<exists>j < length rs. Receiver_ID (rs ! j) = Some c \<and> InvoiceQuarterID_col rs ! j = Some b}"

text \<open>A frame with a single purchase, which has no customer.\<close>

definition no_customer_rows :: "row list" where
  "no_customer_rows = [tx None 2010 1 (Some ''France'') 7]"

section \<open>The loader's coercions\<close>

lemma bind_case: "(case c of None \<Rightarrow> None | Some s \<Rightarrow> f s) = Option.bind c f"
  by (cases c) simp_all

lemma coerce_rows_map: "coerce_rows pn pd csv = map (coerce_row pn pd) csv"
  by (induction csv) (simp_all add: coerce_rows_def coerce_row_def to_numeric_def
      to_datetime_def bind_case Let_def)

lemma load_filter_map:
  "rows (load_and_preprocess_data pn pd csv) =
     map (coerce_row pn pd) (filter (\<lambda>r. Option.bind (InvoiceDate_csv r) pd \<noteq> None) csv)"
  by (simp add: load_and_preprocess_data_def dropna_InvoiceDate_def coerce_rows_map
      filter_map comp_def coerce_row_def frame_def)



lemma load_csv0:
  "rows (load_and_preprocess_data pn0 pd0 csv0) =
    [\<lparr>Packet_ID = Some ''489434'', Sensor_ID = Some ''85048'', Sensor_Type = Some ''Relay Module'',
      Signal_Strength = Some 6,
      InvoiceDate = Some \<lparr>year = 2009, month = 12, day = 1, hour = 7, minute = 45\<rparr>,
      SNR = Some (5 / 2), Receiver_ID = Some 13085, Transmission_Zone = Some ''France'',
      Effective_Throughput = Some 15\<rparr>,
     \<lparr>Packet_ID = Some ''489435'', Sensor_ID = Some ''22350'', Sensor_Type = Some ''WiFi Module'',
      Signal_Strength = None,
      InvoiceDate = Some \<lparr>year = 2009, month = 12, day = 1, hour = 7, minute = 45\<rparr>,
      SNR = Some (5 / 2), Receiver_ID = None, Transmission_Zone = Some ''France'',
      Effective_Throughput = None\<rparr>]"
  by code_simp



section \<open>The relabelling script changes labels only\<close>

lemma update_products_map:
  "\<exists>g. update_products sh sa df = map (\<lambda>r. r\<lparr>Description := g (Description r)\<rparr>) df"
  unfolding update_products_def Let_def by blast

lemma coerce_row_relabel:
  "coerce_row pn pd (r\<lparr>Description := d\<rparr>) = (coerce_row pn pd r)\<lparr>Sensor_Type := d\<rparr>"
  by (simp add: coerce_row_def)

text \<open>
  C7. The relabelling script changes the description column only: the output has the rows
  of the input, in order, each with its quantity, unit price and every other field but the
  description unchanged. Loading the relabelled table therefore gives, row by row, the same
  quantity, price and amount as loading the original.
\<close>

theorem relabel_preserves_amounts:
  fixes shuffle sample df pn pd
  defines "out \<equiv> update_products shuffle sample df"
  shows "length out = length df \<and>
    (\<forall>i < length df.
       Quantity (out ! i) = Quantity (df ! i) \<and> Price (out ! i) = Price (df ! i) \<and>
       Invoice (out ! i) = Invoice (df ! i) \<and> StockCode (out ! i) = StockCode (df ! i) \<and>
       InvoiceDate_csv (out ! i) = InvoiceDate_csv (df ! i) \<and>
       Customer_ID (out ! i) = Customer_ID (df ! i) \<and> Country (out ! i) = Country (df ! i)) \<and>
    map Signal_Strength (rows (load_and_preprocess_data pn pd out)) =
      map Signal_Strength (rows (load_and_preprocess_data pn pd df)) \<and>
    map SNR (rows (load_and_preprocess_data pn pd out)) =
      map SNR (rows (load_and_preprocess_data pn pd df)) \<and>
    map Effective_Throughput (rows (load_and_preprocess_data pn pd out)) =
      map Effective_Throughput (rows (load_and_preprocess_data pn pd df))"
proof -
  obtain g where out: "out = map (\<lambda>r. r\<lparr>Description := g (Description r)\<rparr>) df"
    unfolding out_def using update_products_map by blast
  have load: "rows (load_and_preprocess_data pn pd out) =
      map (\<lambda>r. r\<lparr>Sensor_Type := g (Sensor_Type r)\<rparr>) (rows (load_and_preprocess_data pn pd df))"
    by (simp add: load_filter_map out filter_map comp_def coerce_row_relabel)
       (simp add: coerce_row_def)
  show ?thesis
    by (simp add: load comp_def) (simp add: out)
qed

lemma update_csv0:
  "update_products shuffle0 sample0 csv0 = 
    [\<lparr>Invoice = Some ''489434'', StockCode = Some ''85048'',
      Description = Some ''ESP32 WiFi Development Board'',
     Quantity = Some ''6'', InvoiceDate_csv = Some ''12/1/09 7:45'', Price = Some ''2.5'',
     Customer_ID = Some 13085, Country = Some ''France''\<rparr>,
    \<lparr>Invoice = Some ''489435'', StockCode = Some ''22350'',
     Description = Some ''Raspberry Pi 4 Model B'',
     Quantity = Some ''six'', InvoiceDate_csv = Some ''12/1/09 7:45'', Price = Some ''2.5'',
     Customer_ID = None, Country = Some ''France''\<rparr>,
    \<lparr>Invoice = Some ''489436'', StockCode = Some ''22349'',
     Description = Some ''Arduino Uno R3 Development Board'',
     Quantity = Some ''6'', InvoiceDate_csv = Some ''yesterday'', Price = Some ''2.5'',
     Customer_ID = Some 13078, Country = Some ''Spain''\<rparr>]"
  by code_simp

theorem relabel_preserves_amounts_witness:
  "(0::nat) < length csv0 \<and>
   Description (update_products shuffle0 sample0 csv0 ! 0) = Some ''ESP32 WiFi Development Board'' \<and>
   Description (csv0 ! 0) = Some ''Relay Module'' \<and> 
   Quantity (update_products shuffle0 sample0 csv0 ! 0) = Some ''6'' \<and>
   Price (update_products shuffle0 sample0 csv0 ! 0) = Some ''2.5'' \<and>
   map Effective_Throughput
     (rows (load_and_preprocess_data pn0 pd0 (update_products shuffle0 sample0 csv0))) =
     [Some 15, None]"
  using relabel_preserves_amounts [where shuffle = shuffle0 and sample = sample0 and df = csv0
      and pn = pn0 and pd = pd0]
  unfolding load_csv0 by (simp add: update_csv0) (simp add: csv0_def)

section \<open>The cohort engine on the example frames\<close>

lemma str_nat_digit: "n < 10 \<Longrightarrow> str_nat n = [digit n]"
  by (subst str_nat.simps) simp

lemma str_nat_quarters: "str_nat (Suc 0) = ''1''" "str_nat 4 = ''4''"
  by (simp_all add: str_nat_digit digit_def)

lemma str_nat_2009: "str_nat 2009 = ''2009''"
  by (simp add: str_nat.simps [of 2009] str_nat.simps [of 200] str_nat.simps [of 20]
      str_nat_digit digit_def)

lemma str_nat_2010: "str_nat 2010 = ''2010''"
  by (simp add: str_nat.simps [of 2010] str_nat.simps [of 201] str_nat.simps [of 20]
      str_nat_digit digit_def)

lemma cohort_rows_InvoiceQuarter: "InvoiceQuarter_col cohort_rows = [''Q4/2009'', ''Q4/2009'', ''Q1/2010'', ''Q1/2010'']"
  by (simp add: InvoiceQuarter_col_def cohort_rows_def tx_def astype_str_def quarter_def
      str_nat_quarters str_nat_2009 str_nat_2010)

lemma cohort_rows_unique: "unique [''Q4/2009'', ''Q4/2009'', ''Q1/2010'', ''Q1/2010''] = [''Q4/2009'', ''Q1/2010'']"
  by (simp add: unique_def)

lemma cohort_rows_quarters_map: "quarters_map cohort_rows = [(''Q4/2009'', 0), (''Q1/2010'', 1)]"
  by (simp add: quarters_map_def cohort_rows_InvoiceQuarter cohort_rows_unique dict_def dict_set_def upt_rec)

lemma cohort_rows_InvoiceQuarterID: "InvoiceQuarterID_col cohort_rows = [Some 0, Some 0, Some 1, Some 1]"
  by (simp add: InvoiceQuarterID_col_def map_dict_def cohort_rows_InvoiceQuarter cohort_rows_quarters_map)

lemma cohort_rows_Receiver_ID: "map Receiver_ID cohort_rows = [Some 1, Some 2, Some 1, Some 3]"
  by (simp add: cohort_rows_def tx_def)

lemma cohort_rows_CohortQuarterID: "CohortQuarterID_col cohort_rows = [Some 0, Some 0, Some 0, Some 1]"
  by (simp add: CohortQuarterID_col_def cohort_rows_InvoiceQuarterID cohort_rows_Receiver_ID transform_min_def group_vals_def nanmin_def)

lemma cohort_rows_CohortIndex: "CohortIndex_col cohort_rows = [Some 0, Some 0, Some 1, Some 0]"
  by (simp add: CohortIndex_col_def cohort_rows_InvoiceQuarterID cohort_rows_CohortQuarterID)

lemma cohort_rows_retention_counts: "cohort_retention cohort_rows = [((0, 0), 2), ((0, 1), 1), ((1, 0), 1)]"
  by (simp add: cohort_retention_def cohort_rows_CohortQuarterID cohort_rows_CohortIndex cohort_rows_Receiver_ID groupby_agg_def group_keys_def group_vals_def
      nunique_def less_eq_prod_def less_prod_def)


lemma cohort_rows_pivot: "cohort_retention_count cohort_rows =
    \<lparr>index = [Some ''Q4/2009'', Some ''Q1/2010''], columns = [0, 1],
     cells = [[Some 2, Some 1], [Some 1, None]]\<rparr>"
  by (simp add: cohort_retention_count_def pivot_table_def cohort_rows_retention_counts quarter_names_def cohort_rows_quarters_map dict_keys_def
      dict_values_def dict_def dict_set_def mean_def)

lemma round_na_100: "round_na 2 (Some 100) = Some 100" "round_na 2 (Some 50) = Some 50"
  "round_na 2 None = None"
  by (simp_all add: round_na_def round_half_even_def)

lemma cohort_rows_retention: "retention cohort_rows =
    Inr \<lparr>index = [Some ''Q1/2010'', Some ''Q4/2009''], columns = [0, 1],
         cells = [[Some 100, None], [Some 100, Some 50]]\<rparr>"
  by (simp add: retention_def cohort_rows_pivot iloc_col0_def divide_rows_def round_na_100)

lemma cohort_rows_twice_InvoiceQuarter:
  "InvoiceQuarter_col cohort_rows_twice =
     [''Q4/2009'', ''Q4/2009'', ''Q1/2010'', ''Q1/2010'', ''Q1/2010'']"
  by (simp add: InvoiceQuarter_col_def cohort_rows_twice_def tx_def astype_str_def quarter_def
      str_nat_quarters str_nat_2009 str_nat_2010)

lemma cohort_rows_twice_quarters_map:
  "quarters_map cohort_rows_twice = [(''Q4/2009'', 0), (''Q1/2010'', 1)]"
  by (simp add: quarters_map_def cohort_rows_twice_InvoiceQuarter unique_def dict_def
      dict_set_def upt_rec)

lemma cohort_rows_twice_InvoiceQuarterID:
  "InvoiceQuarterID_col cohort_rows_twice = [Some 0, Some 0, Some 1, Some 1, Some 1]"
  by (simp add: InvoiceQuarterID_col_def map_dict_def cohort_rows_twice_InvoiceQuarter
      cohort_rows_twice_quarters_map)

lemma cohort_rows_twice_Receiver_ID:
  "map Receiver_ID cohort_rows_twice = [Some 1, Some 2, Some 1, Some 1, Some 3]"
  by (simp add: cohort_rows_twice_def tx_def)

lemma cohort_rows_twice_CohortQuarterID:
  "CohortQuarterID_col cohort_rows_twice = [Some 0, Some 0, Some 0, Some 0, Some 1]"
  by (simp add: CohortQuarterID_col_def cohort_rows_twice_InvoiceQuarterID
      cohort_rows_twice_Receiver_ID transform_min_def group_vals_def nanmin_def)

lemma cohort_rows_twice_CohortIndex:
  "CohortIndex_col cohort_rows_twice = [Some 0, Some 0, Some 1, Some 1, Some 0]"
  by (simp add: CohortIndex_col_def cohort_rows_twice_InvoiceQuarterID
      cohort_rows_twice_CohortQuarterID)

lemma cohort_rows_twice_retention_counts:
  "cohort_retention cohort_rows_twice = [((0, 0), 2), ((0, 1), 1), ((1, 0), 1)]"
  by (simp add: cohort_retention_def cohort_rows_twice_CohortQuarterID
      cohort_rows_twice_CohortIndex cohort_rows_twice_Receiver_ID groupby_agg_def group_keys_def
      group_vals_def nunique_def less_eq_prod_def less_prod_def)

lemma cohort_rows_twice_pivot: "cohort_retention_count cohort_rows_twice =
    \<lparr>index = [Some ''Q4/2009'', Some ''Q1/2010''], columns = [0, 1],
     cells = [[Some 2, Some 1], [Some 1, None]]\<rparr>"
  by (simp add: cohort_retention_count_def pivot_table_def cohort_rows_twice_retention_counts
      quarter_names_def cohort_rows_twice_quarters_map dict_keys_def
      dict_values_def dict_def dict_set_def mean_def)

lemma cohort_rows_twice_retention: "retention cohort_rows_twice =
    Inr \<lparr>index = [Some ''Q1/2010'', Some ''Q4/2009''], columns = [0, 1],
         cells = [[Some 100, None], [Some 100, Some 50]]\<rparr>"
  by (simp add: retention_def cohort_rows_twice_pivot iloc_col0_def divide_rows_def round_na_100)

section \<open>Bucket indices, cohorts and offsets\<close>

lemma set_dropna: "set (dropna xs) = {x. Some x \<in> set xs}"
  by (induction xs rule: dropna.induct) auto

lemma unique_from_append:
  "unique_from seen (xs @ ys) = unique_from (unique_from seen xs) ys"
  by (induction xs arbitrary: seen) simp_all

lemma set_unique_from: "set (unique_from seen xs) = set seen \<union> set xs"
  by (induction xs arbitrary: seen) auto

lemma distinct_unique_from: "distinct seen \<Longrightarrow> distinct (unique_from seen xs)"
  by (induction xs arbitrary: seen) auto

lemma unique_from_prefix: "\<exists>zs. unique_from seen xs = seen @ zs"
proof (induction xs arbitrary: seen)
  case Nil
  show ?case by simp
next
  case (Cons x xs)
  show ?case
  proof (cases "x \<in> set seen")
    case True
    with Cons show ?thesis by simp
  next
    case False
    from Cons [of "seen @ [x]"] obtain zs where "unique_from (seen @ [x]) xs = (seen @ [x]) @ zs"
      by blast
    with False show ?thesis by simp
  qed
qed

lemma set_unique: "set (unique xs) = set xs"
  by (simp add: unique_def set_unique_from)

lemma distinct_unique: "distinct (unique xs)"
  by (simp add: unique_def distinct_unique_from)

lemma length_unique: "length (unique xs) = card (set xs)"
  using distinct_card [OF distinct_unique, of xs] by (simp add: set_unique)

text \<open>A key stands in \<open>unique xs\<close> right after the distinct keys that come before it.\<close>

lemma unique_split:
  assumes "k \<in> set xs"
  shows "\<exists>zs. unique xs = unique (takeWhile (\<lambda>x. x \<noteq> k) xs) @ k # zs"
proof -
  let ?pre = "takeWhile (\<lambda>x. x \<noteq> k) xs"
  let ?post = "dropWhile (\<lambda>x. x \<noteq> k) xs"
  from assms have "?post \<noteq> []" by simp
  moreover have "hd ?post = k"
    using assms hd_dropWhile [of "\<lambda>x. x \<noteq> k" xs] by auto
  ultimately obtain ys where post: "?post = k # ys" by (cases ?post) auto
  have "k \<notin> set ?pre" by (auto dest: set_takeWhileD)
  then have knew: "k \<notin> set (unique ?pre)" by (simp add: set_unique)
  have "xs = ?pre @ k # ys" using post takeWhile_dropWhile_id [of "\<lambda>x. x \<noteq> k" xs] by simp
  then have "unique xs = unique_from (unique_from [] ?pre) (k # ys)"
    unfolding unique_def using unique_from_append [of "[]" ?pre "k # ys"] by simp
  also have "\<dots> = unique_from (unique ?pre @ [k]) ys"
    using knew by (simp add: unique_def)
  finally obtain zs where "unique xs = (unique ?pre @ [k]) @ zs"
    using unique_from_prefix [of "unique ?pre @ [k]" ys] by auto
  then show ?thesis by auto
qed

lemma fold_dict_set:
  "distinct (map fst (acc @ ps)) \<Longrightarrow> fold (\<lambda>(k, v) d. dict_set k v d) ps acc = acc @ ps"
proof (induction ps arbitrary: acc)
  case Nil
  show ?case by simp
next
  case (Cons p ps)
  obtain k v where p: "p = (k, v)" by (cases p)
  from Cons.prems have "k \<notin> fst ` set acc" by (auto simp: p)
  then have step: "dict_set k v acc = acc @ [(k, v)]" by (simp add: dict_set_def)
  from Cons.prems have "distinct (map fst ((acc @ [p]) @ ps))" by simp
  from Cons.IH [OF this] show ?case by (simp add: p step)
qed

lemma dict_distinct: "distinct (map fst ps) \<Longrightarrow> dict ps = ps"
  using fold_dict_set [of "[]" ps] by (simp add: dict_def)

lemma quarters_map_eq:
  "quarters_map rs =
     zip (unique (InvoiceQuarter_col rs)) [0..<length (unique (InvoiceQuarter_col rs))]"
  by (simp add: quarters_map_def dict_distinct distinct_unique)

lemma map_of_zip_upt_index:
  assumes "distinct us" and "us = as @ k # zs"
  shows "map_of (zip us [0..<length us]) k = Some (length as)"
proof -
  have i: "length as < length [0..<length us]" by (simp add: assms(2))
  have "map_of (zip us [0..<length us]) (us ! length as) = Some ([0..<length us] ! length as)"
    using assms(1) i by (intro map_of_zip_nth) simp_all
  moreover have "us ! length as = k" by (simp add: assms(2))
  moreover have "[0..<length us] ! length as = length as" using i by simp
  ultimately show ?thesis by simp
qed

lemma quarters_map_index:
  assumes "k \<in> set (InvoiceQuarter_col rs)"
  shows "map_of (quarters_map rs) k =
    Some (card (set (takeWhile (\<lambda>x. x \<noteq> k) (InvoiceQuarter_col rs))))"
proof -
  let ?ks = "InvoiceQuarter_col rs"
  let ?pre = "takeWhile (\<lambda>x. x \<noteq> k) ?ks"
  from unique_split [OF assms] obtain zs where u: "unique ?ks = unique ?pre @ k # zs" by blast
  from map_of_zip_upt_index [OF distinct_unique u]
  show ?thesis by (simp add: quarters_map_eq length_unique)
qed

lemma quarters_map_nth:
  assumes "i < card (set (InvoiceQuarter_col rs))"
  shows "map_of (quarters_map rs) (unique (InvoiceQuarter_col rs) ! i) = Some i"
proof -
  let ?u = "unique (InvoiceQuarter_col rs)"
  have i: "i < length [0..<length ?u]" using assms by (simp add: length_unique)
  have "map_of (zip ?u [0..<length ?u]) (?u ! i) = Some ([0..<length ?u] ! i)"
    using distinct_unique i by (intro map_of_zip_nth) simp_all
  then show ?thesis using i by (simp add: quarters_map_eq)
qed

lemma quarters_map_bij:
  fixes rs
  defines "ks \<equiv> InvoiceQuarter_col rs"
  defines "qm \<equiv> quarters_map rs"
  shows "bij_betw (\<lambda>k. the (map_of qm k)) (set ks) {0..<card (set ks)}"
proof -
  let ?u = "unique ks"
  have nth: "map_of qm (?u ! i) = Some i" if "i < card (set ks)" for i
    using quarters_map_nth that by (simp add: qm_def ks_def)
  have len: "length ?u = card (set ks)" by (rule length_unique)
  have ex: "\<exists>i < card (set ks). ?u ! i = k" if "k \<in> set ks" for k
  proof -
    from that have "k \<in> set ?u" by (simp add: set_unique)
    then obtain i where "i < length ?u" "?u ! i = k" unfolding in_set_conv_nth by blast
    then show ?thesis using len by auto
  qed
  show ?thesis
  proof (rule bij_betw_byWitness [where f' = "\<lambda>i. ?u ! i"])
    show "\<forall>k \<in> set ks. ?u ! the (map_of qm k) = k"
    proof
      fix k assume "k \<in> set ks"
      from ex [OF this] obtain i where i: "i < card (set ks)" "?u ! i = k" by blast
      from nth [OF i(1)] have "the (map_of qm k) = i" by (simp add: i(2))
      then show "?u ! the (map_of qm k) = k" by (simp add: i(2))
    qed
    show "\<forall>i \<in> {0..<card (set ks)}. the (map_of qm (?u ! i)) = i"
    proof
      fix i assume "i \<in> {0..<card (set ks)}"
      then have "i < card (set ks)" by simp
      from nth [OF this] show "the (map_of qm (?u ! i)) = i" by simp
    qed
    show "(\<lambda>k. the (map_of qm k)) ` set ks \<subseteq> {0..<card (set ks)}"
    proof
      fix n assume "n \<in> (\<lambda>k. the (map_of qm k)) ` set ks"
      then obtain k where k: "k \<in> set ks" "n = the (map_of qm k)" by blast
      from ex [OF k(1)] obtain i where i: "i < card (set ks)" "?u ! i = k" by blast
      from nth [OF i(1)] have "the (map_of qm k) = i" by (simp add: i(2))
      with k(2) i(1) show "n \<in> {0..<card (set ks)}" by simp
    qed
    show "(\<lambda>i. ?u ! i) ` {0..<card (set ks)} \<subseteq> set ks"
    proof
      fix k assume "k \<in> (\<lambda>i. ?u ! i) ` {0..<card (set ks)}"
      then obtain i where "i < card (set ks)" "k = ?u ! i" by auto
      then have "k \<in> set ?u" using len by simp
      then show "k \<in> set ks" by (simp add: set_unique)
    qed
  qed
qed

text \<open>
  C9. The quarter keys get the indices 0, 1, 2, ... in the order in which they first appear
  in the rows: the dictionary holds each distinct key once, its values are 0 up to the number
  of distinct keys, it maps the keys one-to-one onto these indices, and the index of a key is
  the number of distinct keys that appear before its first occurrence.
\<close>

theorem quarters_map_dense:
  fixes rs
  defines "ks \<equiv> InvoiceQuarter_col rs"
  defines "qm \<equiv> quarters_map rs"
  shows "dict_keys qm = unique ks \<and> distinct (dict_keys qm) \<and> set (dict_keys qm) = set ks \<and>
    dict_values qm = [0..<card (set ks)] \<and>
    dom (map_of qm) = set ks \<and>
    bij_betw (\<lambda>k. the (map_of qm k)) (set ks) {0..<card (set ks)} \<and>
    (\<forall>k \<in> set ks. map_of qm k = Some (card (set (takeWhile (\<lambda>x. x \<noteq> k) ks))))"
proof -
  have qm: "qm = zip (unique ks) [0..<length (unique ks)]"
    by (simp add: qm_def ks_def quarters_map_eq)
  have keys: "dict_keys qm = unique ks" by (simp add: qm dict_keys_def)
  have vals: "dict_values qm = [0..<card (set ks)]"
    by (simp add: qm dict_values_def length_unique)
  have dom: "dom (map_of qm) = set ks"
    unfolding qm by (simp add: set_unique)
  have idx: "\<forall>k \<in> set ks. map_of qm k = Some (card (set (takeWhile (\<lambda>x. x \<noteq> k) ks)))"
    unfolding qm_def ks_def using quarters_map_index by blast
  have bij: "bij_betw (\<lambda>k. the (map_of qm k)) (set ks) {0..<card (set ks)}"
    unfolding qm_def ks_def by (rule quarters_map_bij)
  have d: "distinct (dict_keys qm)" unfolding keys by (rule distinct_unique)
  have s: "set (dict_keys qm) = set ks" unfolding keys by (rule set_unique)
  from keys d s vals dom bij idx show ?thesis by blast
qed


lemma length_InvoiceQuarter_col [simp]: "length (InvoiceQuarter_col rs) = length rs"
  by (simp add: InvoiceQuarter_col_def Let_def)

lemma length_InvoiceQuarterID_col [simp]: "length (InvoiceQuarterID_col rs) = length rs"
  by (simp add: InvoiceQuarterID_col_def map_dict_def)

lemma length_CohortQuarterID_col [simp]: "length (CohortQuarterID_col rs) = length rs"
  by (simp add: CohortQuarterID_col_def transform_min_def)

lemma length_CohortIndex_col [simp]: "length (CohortIndex_col rs) = length rs"
  by (simp add: CohortIndex_col_def)

lemma InvoiceQuarterID_nth:
  assumes "i < length rs"
  shows "InvoiceQuarterID_col rs ! i =
    Some (card (set (takeWhile (\<lambda>x. x \<noteq> InvoiceQuarter_col rs ! i) (InvoiceQuarter_col rs))))"
proof -
  have "InvoiceQuarter_col rs ! i \<in> set (InvoiceQuarter_col rs)" using assms by simp
  from quarters_map_index [OF this] show ?thesis
    using assms by (simp add: InvoiceQuarterID_col_def map_dict_def)
qed

lemma set_group_vals:
  assumes "length ks = length vs"
  shows "set (group_vals ks vs c) = {v. \<exists>j < length ks. ks ! j = Some c \<and> vs ! j = v}"
proof (intro set_eqI iffI)
  fix v assume "v \<in> set (group_vals ks vs c)"
  then show "v \<in> {v. \<exists>j < length ks. ks ! j = Some c \<and> vs ! j = v}"
    using assms by (auto simp: group_vals_def set_zip)
next
  fix v assume "v \<in> {v. \<exists>j < length ks. ks ! j = Some c \<and> vs ! j = v}"
  then obtain j where j: "j < length ks" "ks ! j = Some c" "vs ! j = v" by blast
  then have "(Some c, v) \<in> set (zip ks vs)"
    using assms nth_mem [of j "zip ks vs"] by simp
  then have "(Some c, v) \<in> set (filter (\<lambda>(k', v). k' = Some c) (zip ks vs))" by simp
  then have "snd (Some c, v) \<in> set (group_vals ks vs c)"
    unfolding group_vals_def set_map by (rule imageI)
  then show "v \<in> set (group_vals ks vs c)" by simp
qed

lemma nanmin_Min: "dropna vs \<noteq> [] \<Longrightarrow> nanmin vs = Some (Min (set (dropna vs)))"
  using min_list_Min [of "dropna vs"] by (cases "dropna vs") (simp_all add: nanmin_def)

lemma nanmin_None: "dropna vs = [] \<Longrightarrow> nanmin vs = None"
  by (simp add: nanmin_def)

text \<open>The bucket indices of the rows of customer \<open>c\<close>.\<close>

lemma customer_buckets:
  "set (dropna (group_vals (map Receiver_ID rs) (InvoiceQuarterID_col rs) c)) =
     {b. \<exists>j < length rs. Receiver_ID (rs ! j) = Some c \<and> InvoiceQuarterID_col rs ! j = Some b}"
  by (auto simp: set_dropna set_group_vals)

lemma CohortQuarterID_nth:
  assumes "i < length rs" and "Receiver_ID (rs ! i) = Some c"
  shows "CohortQuarterID_col rs ! i =
    Some (Min {b. \<exists>j < length rs. Receiver_ID (rs ! j) = Some c \<and>
                    InvoiceQuarterID_col rs ! j = Some b})"
proof -
  let ?vs = "group_vals (map Receiver_ID rs) (InvoiceQuarterID_col rs) c"
  obtain b where b: "InvoiceQuarterID_col rs ! i = Some b"
    using InvoiceQuarterID_nth [OF assms(1)] by blast
  with assms have "b \<in> set (dropna ?vs)" unfolding customer_buckets by blast
  then have "dropna ?vs \<noteq> []" by auto
  from nanmin_Min [OF this] have "nanmin ?vs = Some (Min (set (dropna ?vs)))" .
  then show ?thesis
    using assms by (simp add: CohortQuarterID_col_def transform_min_def customer_buckets)
qed

lemma CohortQuarterID_None:
  assumes "i < length rs" and "Receiver_ID (rs ! i) = None"
  shows "CohortQuarterID_col rs ! i = None"
  using assms by (simp add: CohortQuarterID_col_def transform_min_def)

lemma CohortIndex_nth:
  assumes "i < length rs"
  shows "CohortIndex_col rs ! i = sub_na (InvoiceQuarterID_col rs ! i) (CohortQuarterID_col rs ! i)"
  using assms by (simp add: CohortIndex_col_def)

theorem quarters_map_dense_witness:
  "''Q1/2010'' \<in> set (InvoiceQuarter_col cohort_rows) \<and>
   map_of (quarters_map cohort_rows) ''Q1/2010'' = Some 1 \<and>
   card (set (takeWhile (\<lambda>x. x \<noteq> ''Q1/2010'') (InvoiceQuarter_col cohort_rows))) = 1 \<and>
   dict_keys (quarters_map cohort_rows) = [''Q4/2009'', ''Q1/2010''] \<and>
   dict_values (quarters_map cohort_rows) = [0, 1]"
  using quarters_map_dense [of cohort_rows]
  unfolding cohort_rows_InvoiceQuarter cohort_rows_quarters_map
  by (simp add: dict_values_def dict_keys_def)

text \<open>
  C1. For a row with a customer, the cohort bucket the engine assigns is the least bucket
  index among the rows of that customer. It is therefore at most the bucket index of the row
  itself, and of every row of the customer, and the row's offset (\<open>CohortIndex\<close>), the
  difference of the two, is not negative.
\<close>

theorem cohort_is_min_bucket:
  assumes "i < length (rows df)" and "Receiver_ID (rows df ! i) = Some c"
  shows "\<exists>ids cohort offs b q.
    InvoiceQuarterID (fst (analyze_cohort_retention df)) = Some ids \<and>
    CohortQuarterID (fst (analyze_cohort_retention df)) = Some cohort \<and>
    CohortIndex (fst (analyze_cohort_retention df)) = Some offs \<and>
    q = Min {b'. \<exists>j < length (rows df). Receiver_ID (rows df ! j) = Some c \<and> ids ! j = Some b'} \<and>
    cohort ! i = Some q \<and> ids ! i = Some b \<and> q \<le> b \<and>
    offs ! i = Some (int b - int q) \<and> 0 \<le> int b - int q \<and>
    (\<forall>j < length (rows df). Receiver_ID (rows df ! j) = Some c \<longrightarrow>
       cohort ! j = Some q \<and> (\<exists>b'. ids ! j = Some b' \<and> q \<le> b'))"
proof -
  let ?rs = "rows df"
  let ?B = "{b'. \<exists>j < length ?rs. Receiver_ID (?rs ! j) = Some c \<and>
                   InvoiceQuarterID_col ?rs ! j = Some b'}"
  have fin: "finite ?B"
    using finite_set [of "dropna (group_vals (map Receiver_ID ?rs) (InvoiceQuarterID_col ?rs) c)"]
    unfolding customer_buckets .
  have row: "CohortQuarterID_col ?rs ! j = Some (Min ?B) \<and>
      (\<exists>b'. InvoiceQuarterID_col ?rs ! j = Some b' \<and> Min ?B \<le> b')"
    if j: "j < length ?rs" "Receiver_ID (?rs ! j) = Some c" for j
  proof -
    obtain b' where b': "InvoiceQuarterID_col ?rs ! j = Some b'"
      using InvoiceQuarterID_nth [OF j(1)] by blast
    with j have "b' \<in> ?B" by blast
    with fin have "Min ?B \<le> b'" by (rule Min_le)
    with b' CohortQuarterID_nth [OF j] show ?thesis by simp
  qed
  from row [OF assms] obtain b where
    b: "InvoiceQuarterID_col ?rs ! i = Some b" "Min ?B \<le> b" 
    and q: "CohortQuarterID_col ?rs ! i = Some (Min ?B)" by blast
  have offs: "CohortIndex_col ?rs ! i = Some (int b - int (Min ?B))"
    using CohortIndex_nth [OF assms(1)] b q by simp
  have cols: "InvoiceQuarterID (fst (analyze_cohort_retention df)) = Some (InvoiceQuarterID_col ?rs)"
    "CohortQuarterID (fst (analyze_cohort_retention df)) = Some (CohortQuarterID_col ?rs)"
    "CohortIndex (fst (analyze_cohort_retention df)) = Some (CohortIndex_col ?rs)"
    by (simp_all add: analyze_cohort_retention_def)
  from b(2) have "0 \<le> int b - int (Min ?B)" by simp
  with cols b q offs row show ?thesis by blast
qed

theorem cohort_is_min_bucket_witness:
  "(2::nat) < length (rows (frame cohort_rows)) \<and>
   Receiver_ID (rows (frame cohort_rows) ! 2) = Some 1 \<and>
   InvoiceQuarterID (fst (analyze_cohort_retention (frame cohort_rows))) =
     Some [Some 0, Some 0, Some 1, Some 1] \<and>
   CohortQuarterID (fst (analyze_cohort_retention (frame cohort_rows))) =
     Some [Some 0, Some 0, Some 0, Some 1] \<and>
   CohortIndex (fst (analyze_cohort_retention (frame cohort_rows))) =
     Some [Some 0, Some 0, Some 1, Some 0] \<and>
   (\<exists>b q. CohortQuarterID_col cohort_rows ! 2 = Some q \<and>
      InvoiceQuarterID_col cohort_rows ! 2 = Some b \<and> q \<le> b)"
proof -
  have len: "(2::nat) < length (rows (frame cohort_rows))"
    by (simp add: frame_def cohort_rows_def)
  have c: "Receiver_ID (rows (frame cohort_rows) ! 2) = Some 1"
    by (simp add: frame_def cohort_rows_def tx_def)
  have cols: "InvoiceQuarterID (fst (analyze_cohort_retention (frame cohort_rows))) =
      Some (InvoiceQuarterID_col cohort_rows)"
    "CohortQuarterID (fst (analyze_cohort_retention (frame cohort_rows))) =
      Some (CohortQuarterID_col cohort_rows)"
    "CohortIndex (fst (analyze_cohort_retention (frame cohort_rows))) =
      Some (CohortIndex_col cohort_rows)"
    by (simp_all add: analyze_cohort_retention_def frame_def)
  from cohort_is_min_bucket [OF len c]
  have "\<exists>b q. CohortQuarterID_col cohort_rows ! 2 = Some q \<and>
      InvoiceQuarterID_col cohort_rows ! 2 = Some b \<and> q \<le> b"
    unfolding cols by blast
  with len c show ?thesis
    unfolding cols
    by (simp only: cohort_rows_InvoiceQuarterID cohort_rows_CohortQuarterID
        cohort_rows_CohortIndex simp_thms)
qed

text \<open>
  C3. Customers 1 and 2 first transact in bucket 0, customer 3 first transacts in bucket 1,
  and customer 1 transacts in bucket 1 as well. The engine counts 2 distinct customers in
  cohort 0 at offset 0 and 1 at offset 1, and the retention table has 50.00 at cohort 0,
  offset 1 (the table lists the latest cohort first). The counts are of distinct customers:
  a second transaction of customer 1 in bucket 1 changes neither the counts nor the table.
\<close>

theorem cohort_example:
  "map Receiver_ID cohort_rows = [Some 1, Some 2, Some 1, Some 3] \<and>
   InvoiceQuarterID_col cohort_rows = [Some 0, Some 0, Some 1, Some 1] \<and>
   CohortQuarterID_col cohort_rows = [Some 0, Some 0, Some 0, Some 1] \<and>
   CohortIndex_col cohort_rows = [Some 0, Some 0, Some 1, Some 0] \<and>
   cohort_retention cohort_rows = [((0, 0), 2), ((0, 1), 1), ((1, 0), 1)] \<and>
   snd (analyze_cohort_retention (frame cohort_rows)) =
     Inr \<lparr>index = [Some ''Q1/2010'', Some ''Q4/2009''], columns = [0, 1],
          cells = [[Some 100, None], [Some 100, Some 50]]\<rparr> \<and>
   map Receiver_ID cohort_rows_twice = [Some 1, Some 2, Some 1, Some 1, Some 3] \<and>
   InvoiceQuarterID_col cohort_rows_twice = [Some 0, Some 0, Some 1, Some 1, Some 1] \<and>
   cohort_retention cohort_rows_twice = [((0, 0), 2), ((0, 1), 1), ((1, 0), 1)] \<and>
   snd (analyze_cohort_retention (frame cohort_rows_twice)) =
     Inr \<lparr>index = [Some ''Q1/2010'', Some ''Q4/2009''], columns = [0, 1],
          cells = [[Some 100, None], [Some 100, Some 50]]\<rparr>"
  by (simp only: analyze_cohort_retention_def snd_conv frame_def dataframe.simps
      cohort_rows_Receiver_ID cohort_rows_InvoiceQuarterID cohort_rows_CohortQuarterID
      cohort_rows_CohortIndex cohort_rows_retention_counts cohort_rows_retention
      cohort_rows_twice_Receiver_ID cohort_rows_twice_InvoiceQuarterID
      cohort_rows_twice_retention_counts cohort_rows_twice_retention simp_thms)

section \<open>Effects on the shared dataframe\<close>

text \<open>
  The cohort engine and the timeline transform are not pure: on the example frame each
  returns the caller's frame with columns it did not have.
\<close>

theorem cohort_retention_mutates_frame:
  "columns_of (fst (analyze_cohort_retention (frame cohort_rows))) \<noteq> columns_of (frame cohort_rows) \<and>
   columns_of (fst (analyze_timeline_sales (frame cohort_rows))) \<noteq> columns_of (frame cohort_rows) \<and>
   CohortIndex (frame cohort_rows) = None \<and>
   CohortIndex (fst (analyze_cohort_retention (frame cohort_rows))) =
     Some [Some 0, Some 0, Some 1, Some 0]"
proof -
  have before: "''CohortIndex'' \<notin> columns_of (frame cohort_rows)"
    "''InvoiceMonth'' \<notin> columns_of (frame cohort_rows)"
    by (simp_all add: columns_of_def frame_def)
  have after: "''CohortIndex'' \<in> columns_of (fst (analyze_cohort_retention (frame cohort_rows)))"
    "''InvoiceMonth'' \<in> columns_of (fst (analyze_timeline_sales (frame cohort_rows)))"
    by (simp_all add: columns_of_def analyze_cohort_retention_def analyze_timeline_sales_def
        Let_def)
  have col: "CohortIndex (frame cohort_rows) = None"
    "CohortIndex (fst (analyze_cohort_retention (frame cohort_rows))) =
       Some [Some 0, Some 0, Some 1, Some 0]"
    by (simp_all add: analyze_cohort_retention_def frame_def cohort_rows_CohortIndex)
  from before after col show ?thesis by metis
qed

text \<open>
  C4, as the code has it. The sales-trend, customer-behaviour, country-performance and
  product-performance transforms leave the dataframe as it is. The cohort engine and the
  timeline transform leave the rows, and so every loaded column, unchanged, but assign
  columns to the caller's dataframe, which the later steps receive: the cohort engine
  \<open>InvoiceQuarter\<close>, \<open>InvoiceQuarterID\<close>, \<open>CohortQuarterID\<close>, \<open>CohortQuarter\<close> and
  \<open>CohortIndex\<close>; the timeline transform \<open>InvoiceQuarter\<close> (with the values the cohort
  engine gave it) and \<open>InvoiceMonth\<close>.
\<close>

theorem analysis_frame_effects:
  "fst (analyze_sales_trends df) = df \<and>
   fst (analyze_customer_behavior df) = df \<and>
   fst (analyze_country_performance df) = df \<and>
   fst (analyze_product_performance df) = df \<and>
   rows (fst (analyze_cohort_retention df)) = rows df \<and>
   InvoiceMonth (fst (analyze_cohort_retention df)) = InvoiceMonth df \<and>
   columns_of (fst (analyze_cohort_retention df)) =
     columns_of df \<union> {''InvoiceQuarter'', ''InvoiceQuarterID'', ''CohortQuarterID'',
                       ''CohortQuarter'', ''CohortIndex''} \<and>
   rows (fst (analyze_timeline_sales df)) = rows df \<and>
   InvoiceQuarterID (fst (analyze_timeline_sales df)) = InvoiceQuarterID df \<and>
   CohortQuarterID (fst (analyze_timeline_sales df)) = CohortQuarterID df \<and>
   CohortQuarter (fst (analyze_timeline_sales df)) = CohortQuarter df \<and>
   CohortIndex (fst (analyze_timeline_sales df)) = CohortIndex df \<and>
   columns_of (fst (analyze_timeline_sales df)) =
     columns_of df \<union> {''InvoiceQuarter'', ''InvoiceMonth''} \<and>
   InvoiceQuarter (fst (analyze_timeline_sales (fst (analyze_cohort_retention df)))) =
     InvoiceQuarter (fst (analyze_cohort_retention df))"
proof -
  have pure: "fst (analyze_sales_trends df) = df" "fst (analyze_customer_behavior df) = df"
    "fst (analyze_country_performance df) = df" "fst (analyze_product_performance df) = df"
    by (simp_all add: analyze_sales_trends_def analyze_customer_behavior_def
        analyze_country_performance_def analyze_product_performance_def Let_def)
  have cohort: "rows (fst (analyze_cohort_retention df)) = rows df"
    "InvoiceMonth (fst (analyze_cohort_retention df)) = InvoiceMonth df"
    by (simp_all add: analyze_cohort_retention_def)
  have cohort_cols: "columns_of (fst (analyze_cohort_retention df)) =
     columns_of df \<union> {''InvoiceQuarter'', ''InvoiceQuarterID'', ''CohortQuarterID'',
                       ''CohortQuarter'', ''CohortIndex''}"
    unfolding columns_of_def analyze_cohort_retention_def by auto
  have timeline: "rows (fst (analyze_timeline_sales df)) = rows df"
    "InvoiceQuarterID (fst (analyze_timeline_sales df)) = InvoiceQuarterID df"
    "CohortQuarterID (fst (analyze_timeline_sales df)) = CohortQuarterID df"
    "CohortQuarter (fst (analyze_timeline_sales df)) = CohortQuarter df"
    "CohortIndex (fst (analyze_timeline_sales df)) = CohortIndex df"
    by (simp_all add: analyze_timeline_sales_def Let_def)
  have timeline_cols: "columns_of (fst (analyze_timeline_sales df)) =
     columns_of df \<union> {''InvoiceQuarter'', ''InvoiceMonth''}"
    unfolding columns_of_def analyze_timeline_sales_def Let_def by auto
  have again: "InvoiceQuarter (fst (analyze_timeline_sales (fst (analyze_cohort_retention df)))) =
     InvoiceQuarter (fst (analyze_cohort_retention df))"
    by (simp add: analyze_timeline_sales_def analyze_cohort_retention_def Let_def)
  from pure cohort cohort_cols timeline timeline_cols again show ?thesis by blast
qed

section \<open>Grouped totals\<close>




lemma distinct_group_keys: "distinct (group_keys ks)"
  by (simp add: group_keys_def)

lemma set_group_keys: "set (group_keys ks) = {k. Some k \<in> set ks}"
  by (simp add: group_keys_def set_dropna)













section \<open>Largest and smallest entries\<close>














section \<open>The example frames of twenty regions\<close>



















section \<open>Rows without a customer\<close>



lemma cohort_key_None:
  assumes "i < length rs" and "Receiver_ID (rs ! i) = None"
  shows "map2 key2 (CohortQuarterID_col rs) (CohortIndex_col rs) ! i = None"
  using assms CohortQuarterID_None [OF assms] by simp























section \<open>The retention table\<close>

lemma length_cohort_keys [simp]: "length (cohort_keys rs) = length rs"
  by (simp add: cohort_keys_def)

lemma cohort_keys_nth:
  "i < length rs \<Longrightarrow>
     cohort_keys rs ! i = key2 (CohortQuarterID_col rs ! i) (CohortIndex_col rs ! i)"
  by (simp add: cohort_keys_def)

lemma cohort_retention_keys:
  "cohort_retention rs = groupby_agg nunique (cohort_keys rs) (map Receiver_ID rs)"
  by (simp add: cohort_retention_def cohort_keys_def)

lemma finite_customer_buckets: "finite (customer_buckets rs c)"
  using finite_set [of "dropna (group_vals (map Receiver_ID rs) (InvoiceQuarterID_col rs) c)"]
  unfolding customer_buckets customer_buckets_def .

text \<open>The cohort columns of a row that has a customer.\<close>

lemma cohort_row:
  assumes "i < length rs" and "Receiver_ID (rs ! i) = Some c"
  shows "\<exists>b. InvoiceQuarterID_col rs ! i = Some b \<and> b \<in> customer_buckets rs c \<and>
    Min (customer_buckets rs c) \<le> b \<and>
    CohortQuarterID_col rs ! i = Some (Min (customer_buckets rs c)) \<and>
    CohortIndex_col rs ! i = Some (int b - int (Min (customer_buckets rs c))) \<and>
    cohort_keys rs ! i = Some (Min (customer_buckets rs c), int b - int (Min (customer_buckets rs c)))"
proof -
  obtain b where b: "InvoiceQuarterID_col rs ! i = Some b"
    using InvoiceQuarterID_nth [OF assms(1)] by blast
  with assms have mem: "b \<in> customer_buckets rs c" unfolding customer_buckets_def by blast
  with finite_customer_buckets have le: "Min (customer_buckets rs c) \<le> b" by (rule Min_le)
  have q: "CohortQuarterID_col rs ! i = Some (Min (customer_buckets rs c))"
    using CohortQuarterID_nth [OF assms] by (simp add: customer_buckets_def)
  have d: "CohortIndex_col rs ! i = Some (int b - int (Min (customer_buckets rs c)))"
    using CohortIndex_nth [OF assms(1)] b q by simp
  have "cohort_keys rs ! i =
      Some (Min (customer_buckets rs c), int b - int (Min (customer_buckets rs c)))"
    using cohort_keys_nth [OF assms(1)] q d by simp
  with b mem le q d show ?thesis by blast
qed

text \<open>Every customer has a row in the bucket of its cohort: a row with offset 0.\<close>

lemma cohort_first_row:
  assumes "i < length rs" and "Receiver_ID (rs ! i) = Some c"
  shows "\<exists>j < length rs. Receiver_ID (rs ! j) = Some c \<and>
    cohort_keys rs ! j = Some (Min (customer_buckets rs c), 0)"
proof -
  from cohort_row [OF assms] have "customer_buckets rs c \<noteq> {}" by blast
  with finite_customer_buckets have "Min (customer_buckets rs c) \<in> customer_buckets rs c"
    by (rule Min_in)
  then obtain j where j: "j < length rs" "Receiver_ID (rs ! j) = Some c"
    "InvoiceQuarterID_col rs ! j = Some (Min (customer_buckets rs c))"
    unfolding customer_buckets_def by blast
  from cohort_row [OF j(1,2)] j(3)
  have "cohort_keys rs ! j = Some (Min (customer_buckets rs c), 0)" by auto
  with j show ?thesis by blast
qed

lemma set_cohort_group_keys:
  "set (group_keys (cohort_keys rs)) = {k. \<exists>i < length rs. cohort_keys rs ! i = Some k}"
  by (auto simp: set_group_keys in_set_conv_nth)

lemma cohort_key_customer:
  assumes "i < length rs" and "cohort_keys rs ! i = Some k"
  shows "\<exists>c. Receiver_ID (rs ! i) = Some c"
proof (cases "Receiver_ID (rs ! i)")
  case None
  from cohort_key_None [OF assms(1) None] assms(2) show ?thesis
    by (simp add: cohort_keys_def)
next
  case (Some c)
  then show ?thesis by blast
qed

lemma offset_zero_key:
  assumes "(q, d) \<in> set (group_keys (cohort_keys rs))"
  shows "0 \<le> d \<and> (q, 0) \<in> set (group_keys (cohort_keys rs)) \<and>
    1 \<le> nunique (group_vals (cohort_keys rs) (map Receiver_ID rs) (q, 0))"
proof -
  from assms obtain i where i: "i < length rs" "cohort_keys rs ! i = Some (q, d)"
    unfolding set_cohort_group_keys by blast
  from cohort_key_customer [OF i] obtain c where c: "Receiver_ID (rs ! i) = Some c" by blast
  from cohort_row [OF i(1) c] i(2)
  have q: "q = Min (customer_buckets rs c)" and d: "0 \<le> d" by auto
  from cohort_first_row [OF i(1) c] obtain j where j: "j < length rs"
    "Receiver_ID (rs ! j) = Some c" "cohort_keys rs ! j = Some (q, 0)"
    unfolding q by blast
  from j(1,3) have key: "(q, 0) \<in> set (group_keys (cohort_keys rs))"
    unfolding set_cohort_group_keys by blast
  have "Some c \<in> set (group_vals (cohort_keys rs) (map Receiver_ID rs) (q, 0))"
    using j by (subst set_group_vals) auto
  then have "c \<in> set (remdups (dropna (group_vals (cohort_keys rs) (map Receiver_ID rs) (q, 0))))"
    by (simp add: set_dropna)
  then have "remdups (dropna (group_vals (cohort_keys rs) (map Receiver_ID rs) (q, 0))) \<noteq> []"
    by auto
  then have "1 \<le> nunique (group_vals (cohort_keys rs) (map Receiver_ID rs) (q, 0))"
    unfolding nunique_def by (cases "remdups (dropna (group_vals (cohort_keys rs)
      (map Receiver_ID rs) (q, 0)))") simp_all
  with d key show ?thesis by blast
qed

lemma cohort_keys_empty_iff:
  "group_keys (cohort_keys rs) = [] \<longleftrightarrow> (\<forall>r \<in> set rs. Receiver_ID r = None)"
proof
  assume empty: "group_keys (cohort_keys rs) = []"
  show "\<forall>r \<in> set rs. Receiver_ID r = None"
  proof
    fix r assume "r \<in> set rs"
    then obtain i where i: "i < length rs" "rs ! i = r" by (auto simp: in_set_conv_nth)
    show "Receiver_ID r = None"
    proof (cases "Receiver_ID r")
      case (Some c)
      with i cohort_row [of i rs c] obtain k where "cohort_keys rs ! i = Some k" by auto
      with i(1) have "k \<in> set (group_keys (cohort_keys rs))"
        unfolding set_cohort_group_keys by blast
      with empty show ?thesis by simp
    qed simp
  qed
next
  assume none: "\<forall>r \<in> set rs. Receiver_ID r = None"
  have "set (group_keys (cohort_keys rs)) = {}"
  proof (rule ccontr)
    assume "set (group_keys (cohort_keys rs)) \<noteq> {}"
    then obtain k i where i: "i < length rs" "cohort_keys rs ! i = Some k"
      unfolding set_cohort_group_keys by blast
    from cohort_key_customer [OF i] none i(1) show False by auto
  qed
  then show "group_keys (cohort_keys rs) = []" by simp
qed


lemma filter_key_absent:
  "k0 \<notin> set K \<Longrightarrow> filter (\<lambda>(k, v). k = k0) (map (\<lambda>k. (k, g k)) K) = []"
  by (induction K) auto

lemma filter_key_present:
  "distinct K \<Longrightarrow> k0 \<in> set K \<Longrightarrow>
     map snd (filter (\<lambda>(k, v). k = k0) (map (\<lambda>k. (k, g k)) K)) = [g k0]"
  by (induction K) (auto simp: filter_key_absent)

lemma map2_same: "map2 f (map F xs) (map G xs) = map (\<lambda>x. f (F x) (G x)) xs"
  by (induction xs) simp_all

lemma sorted_starts_at_zero:
  fixes xs :: "int list"
  assumes "sorted xs" and "0 \<in> set xs" and "\<forall>x \<in> set xs. 0 \<le> x"
  shows "\<exists>cs. xs = 0 # cs"
proof (cases xs)
  case Nil
  with assms(2) show ?thesis by simp
next
  case (Cons x cs)
  with assms(1,2) have "x \<le> 0" by auto
  moreover from Cons assms(3) have "0 \<le> x" by simp
  ultimately show ?thesis using Cons by simp
qed

lemma retention_no_customer:
  assumes "group_keys (cohort_keys rs) = []"
  shows "retention rs = Inl IndexError"
  using assms
  by (simp add: retention_def cohort_retention_count_def pivot_table_def cohort_retention_keys
      groupby_agg_def iloc_col0_def Let_def)

lemma retention_table:
  assumes nonempty: "group_keys (cohort_keys rs) \<noteq> []"
  shows "\<exists>m. retention rs = Inr m \<and> (\<exists>cs. columns m = 0 # cs) \<and> index m \<noteq> [] \<and>
    length (cells m) = length (index m) \<and>
    (\<forall>r \<in> set (cells m). length r = length (columns m) \<and> (\<exists>rest. r = Some 100 # rest))"
proof -
  let ?K = "group_keys (cohort_keys rs)"
  let ?g = "\<lambda>k. nunique (group_vals (cohort_keys rs) (map Receiver_ID rs) k)"
  let ?tab = "map (\<lambda>k. (k, ?g k)) ?K"
  define cols where "cols = sort (remdups (map (\<lambda>((i, c), v). c) ?tab))"
  define idx where "idx = sort (remdups (map (\<lambda>((i, c), v). i) ?tab))"
  define cell where "cell i c = mean (map snd (filter (\<lambda>(k, v). k = (i, c)) ?tab))" for i c
  have tab: "cohort_retention rs = ?tab"
    by (simp add: cohort_retention_keys groupby_agg_def)
  have count: "cohort_retention_count rs =
      \<lparr>index = map (map_of (quarter_names rs)) idx, columns = cols,
       cells = map (\<lambda>i. map (cell i) cols) idx\<rparr>"
    unfolding cohort_retention_count_def pivot_table_def tab Let_def
    by (simp add: cols_def idx_def cell_def)
  have cols_set: "set cols = snd ` set ?K" and idx_set: "set idx = fst ` set ?K"
    by (auto simp: cols_def idx_def image_iff split_beta)
  from nonempty obtain k where "k \<in> set ?K" by (cases ?K) auto
  then have idx_ne: "idx \<noteq> []" using idx_set by auto
  have zero: "(q, 0) \<in> set ?K" and nonneg: "0 \<le> d" if "(q, d) \<in> set ?K" for q d
    using offset_zero_key [OF that] by simp_all
  have "0 \<in> set cols"
  proof -
    obtain q d where "k = (q, d)" by (cases k)
    with \<open>k \<in> set ?K\<close> zero [of q d] have "(q, 0) \<in> set ?K" by simp
    then have "snd (q, 0::int) \<in> snd ` set ?K" by (rule imageI)
    then show ?thesis by (simp add: cols_set)
  qed
  moreover have "\<forall>x \<in> set cols. 0 \<le> x" using nonneg by (auto simp: cols_set)
  moreover have "sorted cols" by (simp add: cols_def)
  ultimately obtain cs where cols: "cols = 0 # cs" using sorted_starts_at_zero by blast
  have cell0: "\<exists>x. cell i 0 = Some x \<and> x \<noteq> 0" if "i \<in> set idx" for i
  proof -
    from that obtain d where "(i, d) \<in> set ?K" by (auto simp: idx_set)
    from offset_zero_key [OF this]
    have key: "(i, 0) \<in> set ?K" and pos: "1 \<le> ?g (i, 0)" by simp_all
    have "map snd (filter (\<lambda>(k, v). k = (i, 0)) ?tab) = [?g (i, 0)]"
      using distinct_group_keys key by (rule filter_key_present)
    then have "cell i 0 = Some (of_int (?g (i, 0)))" by (simp add: cell_def mean_def)
    moreover from pos have "(of_int (?g (i, 0)) :: rat) \<noteq> 0" by simp
    ultimately show ?thesis by blast
  qed
  define final where "final i = map (\<lambda>v. round_na 2 (map_option (\<lambda>x. x * 100)
      (div_na v (cell i 0)))) (map (cell i) cols)" for i
  have iloc: "iloc_col0 (cohort_retention_count rs) = Inr (map (\<lambda>i. cell i 0) idx)"
    by (simp add: count iloc_col0_def cols comp_def)
  have ret: "retention rs =
      Inr \<lparr>index = rev (map (map_of (quarter_names rs)) idx), columns = cols,
           cells = rev (map final idx)\<rparr>"
    unfolding retention_def Let_def iloc
    by (simp add: count divide_rows_def map2_same final_def comp_def rev_map)
  have row: "length (final i) = length cols \<and> (\<exists>rest. final i = Some 100 # rest)"
    if "i \<in> set idx" for i
  proof -
    from cell0 [OF that] obtain x where x: "cell i 0 = Some x" "x \<noteq> 0" by blast
    then have "round_na 2 (map_option (\<lambda>x. x * 100) (div_na (cell i 0) (cell i 0))) = Some 100"
      by (simp add: round_na_100)
    then show ?thesis by (simp add: final_def cols)
  qed
  have "\<forall>r \<in> set (rev (map final idx)). length r = length cols \<and> (\<exists>rest. r = Some 100 # rest)"
    using row by auto
  with ret cols idx_ne show ?thesis by simp
qed

text \<open>
  C2. When some row has a customer, the cohort engine returns a retention table whose first
  column is offset 0, and every row of the table, that is every cohort, has exactly 100 in
  that column: the cell is present, and dividing the row by it, scaling to percent and
  rounding to two decimals gives 100. When no row has a customer the pivot table has no
  column and \<^verbatim>\<open>iloc[:, 0]\<close> raises IndexError, so there is no table.
\<close>

theorem retention_offset_zero:
  "case snd (analyze_cohort_retention df) of
     Inl e \<Rightarrow> (\<forall>r \<in> set (rows df). Receiver_ID r = None)
   | Inr m \<Rightarrow> (\<exists>r \<in> set (rows df). Receiver_ID r \<noteq> None) \<and>
       (\<exists>cs. columns m = 0 # cs) \<and> index m \<noteq> [] \<and> length (cells m) = length (index m) \<and>
       (\<forall>r \<in> set (cells m). length r = length (columns m) \<and> (\<exists>rest. r = Some 100 # rest))"
proof (cases "group_keys (cohort_keys (rows df)) = []")
  case True
  from retention_no_customer [OF True] True show ?thesis
    by (simp add: analyze_cohort_retention_def cohort_keys_empty_iff)
next
  case False
  from retention_table [OF False] obtain m where m: "retention (rows df) = Inr m"
    "\<exists>cs. columns m = 0 # cs" "index m \<noteq> []" "length (cells m) = length (index m)"
    "\<forall>r \<in> set (cells m). length r = length (columns m) \<and> (\<exists>rest. r = Some 100 # rest)"
    by blast
  from False have "\<exists>r \<in> set (rows df). Receiver_ID r \<noteq> None"
    by (simp add: cohort_keys_empty_iff)
  with m show ?thesis by (simp add: analyze_cohort_retention_def)
qed


theorem retention_offset_zero_witness:
  "Receiver_ID (cohort_rows ! 0) = Some 1 \<and>
   snd (analyze_cohort_retention (frame cohort_rows)) =
     Inr \<lparr>index = [Some ''Q1/2010'', Some ''Q4/2009''], columns = [0, 1],
          cells = [[Some 100, None], [Some 100, Some 50]]\<rparr> \<and>
   map Receiver_ID no_customer_rows = [None] \<and>
   snd (analyze_cohort_retention (frame no_customer_rows)) = Inl IndexError"
proof -
  have some: "Receiver_ID (cohort_rows ! 0) = Some 1" by (simp add: cohort_rows_def tx_def)
  have table: "snd (analyze_cohort_retention (frame cohort_rows)) =
     Inr \<lparr>index = [Some ''Q1/2010'', Some ''Q4/2009''], columns = [0, 1],
          cells = [[Some 100, None], [Some 100, Some 50]]\<rparr>"
    using retention_offset_zero [of "frame cohort_rows"]
    by (simp add: analyze_cohort_retention_def frame_def cohort_rows_retention)
  have none: "map Receiver_ID no_customer_rows = [None]"
    by (simp add: no_customer_rows_def tx_def)
  then have all: "\<forall>r \<in> set (rows (frame no_customer_rows)). Receiver_ID r = None"
    by (simp add: frame_def no_customer_rows_def)
  have "snd (analyze_cohort_retention (frame no_customer_rows)) = Inl IndexError"
  proof (cases "snd (analyze_cohort_retention (frame no_customer_rows))")
    case (Inl e)
    then show ?thesis by (cases e) simp
  next
    case (Inr m)
    with retention_offset_zero [of "frame no_customer_rows"] all show ?thesis by auto
  qed
  with some table none show ?thesis by blast
qed

end
